theory Spec2Isabelle
  imports Main "HOL-Library.Word" "HOL-Library.Sublist"
begin

section \<open>Python values\<close>

text \<open>
  A Python \<^verbatim>\<open>str\<close> is a sequence of Unicode code points and \<^verbatim>\<open>bytes\<close> a sequence
  of octets. Isabelle's \<open>char\<close> is an octet, so a \<^verbatim>\<open>str\<close> is modelled as a list of code
  points (natural numbers) and \<^verbatim>\<open>bytes\<close> as a list of 8-bit words. \<open>ustr\<close> reads an
  ASCII literal as a \<^verbatim>\<open>str\<close>, \<open>bstr\<close> as \<^verbatim>\<open>bytes\<close>.
\<close>

type_synonym ustring = "nat list"
type_synonym byte = "8 word"

definition ustr :: "string \<Rightarrow> ustring" where
  "ustr s = map of_char s"

definition bstr :: "string \<Rightarrow> byte list" where
  "bstr s = map of_char s"

text \<open>The exceptions that the modelled code paths can raise.\<close>

datatype error =
    Exception ustring
  | AttributeError
  | FileExistsError
  | FileNotFoundError
  | ImapError
  | IndexError
  | IsADirectoryError
  | LookupError
  | NotADirectoryError
  | OSError
  | PermissionError
  | TypeError
  | UnboundLocalError
  | UnicodeDecodeError

section \<open>Library functions the code calls\<close>

subsection \<open>\<^verbatim>\<open>str.isalnum\<close>\<close>

text \<open>
  On a single character \<^verbatim>\<open>c.isalnum()\<close> holds for the ASCII digits and letters; beyond
  ASCII it is decided by the Unicode character database of the interpreter, which is
  taken as the parameter \<open>U\<close>.
\<close>

definition isalnum :: "(nat \<Rightarrow> bool) \<Rightarrow> nat \<Rightarrow> bool" where
  "isalnum U c =
     (if c < 128 then (48 \<le> c \<and> c \<le> 57) \<or> (65 \<le> c \<and> c \<le> 90) \<or> (97 \<le> c \<and> c \<le> 122)
      else U c)"

subsection \<open>\<^verbatim>\<open>bytes.decode()\<close>\<close>

text \<open>
  \<^verbatim>\<open>b.decode()\<close> decodes strict UTF-8 and raises \<^verbatim>\<open>UnicodeDecodeError\<close> on a byte
  sequence that is not well formed (a stray or missing continuation byte, an overlong
  form, a surrogate, a code point above U+10FFFF). \<open>utf8_head b bs\<close> reads the code
  point that starts with the byte \<open>b\<close> and says how many bytes of \<open>bs\<close> belong to it.
\<close>

definition cont :: "byte \<Rightarrow> bool" where
  "cont b = (128 \<le> unat b \<and> unat b \<le> 191)"

definition cbits :: "byte \<Rightarrow> nat" where
  "cbits b = unat b - 128"

definition utf8_head :: "byte \<Rightarrow> byte list \<Rightarrow> (nat \<times> nat) option" where
  "utf8_head b bs =
     (let n = unat b in
      if n < 128 then Some (n, 0)
      else if 194 \<le> n \<and> n \<le> 223 then
        (case bs of
           c1 # _ \<Rightarrow> if cont c1 then Some ((n - 192) * 64 + cbits c1, 1) else None
         | _ \<Rightarrow> None)
      else if 224 \<le> n \<and> n \<le> 239 then
        (case bs of
           c1 # c2 # _ \<Rightarrow>
             if (if n = 224 then 160 else 128) \<le> unat c1
                \<and> unat c1 \<le> (if n = 237 then 159 else 191) \<and> cont c2
             then Some (((n - 224) * 64 + cbits c1) * 64 + cbits c2, 2) else None
         | _ \<Rightarrow> None)
      else if 240 \<le> n \<and> n \<le> 244 then
        (case bs of
           c1 # c2 # c3 # _ \<Rightarrow>
             if (if n = 240 then 144 else 128) \<le> unat c1
                \<and> unat c1 \<le> (if n = 244 then 143 else 191) \<and> cont c2 \<and> cont c3
             then Some ((((n - 240) * 64 + cbits c1) * 64 + cbits c2) * 64 + cbits c3, 3)
             else None
         | _ \<Rightarrow> None)
      else None)"

fun utf8_decode :: "byte list \<Rightarrow> ustring option" where
  "utf8_decode [] = Some []"
| "utf8_decode (b # bs) =
     (case utf8_head b bs of
        None \<Rightarrow> None
      | Some (cp, k) \<Rightarrow> map_option ((#) cp) (utf8_decode (drop k bs)))"

subsection \<open>\<^verbatim>\<open>split\<close> with a separator, \<^verbatim>\<open>in\<close> on strings\<close>

text \<open>
  \<^verbatim>\<open>s.split(sep)\<close> for a separator of one element: the pieces between the occurrences
  of \<open>sep\<close>, empty pieces included, so the result is never empty and
  \<^verbatim>\<open>b"".split(b" ") == [b""]\<close>.
\<close>

fun split_on :: "'a \<Rightarrow> 'a list \<Rightarrow> 'a list list" where
  "split_on sep [] = [[]]"
| "split_on sep (x # xs) =
     (if x = sep then [] # split_on sep xs
      else (case split_on sep xs of
              p # ps \<Rightarrow> (x # p) # ps
            | [] \<Rightarrow> [[x]]))"

text \<open>\<^verbatim>\<open>needle in hay\<close>: \<open>needle\<close> is a contiguous part of \<open>hay\<close>.\<close>

primrec py_in :: "'a list \<Rightarrow> 'a list \<Rightarrow> bool" where
  "py_in needle [] = (needle = [])"
| "py_in needle (h # hs) = (prefix needle (h # hs) \<or> py_in needle hs)"

subsection \<open>\<^verbatim>\<open>os.path.join\<close> and the file system\<close>

text \<open>
  \<^verbatim>\<open>os.path.join(a, b)\<close> on POSIX: an absolute \<open>b\<close> replaces \<open>a\<close>; otherwise the two
  are joined by one slash, which is left out when \<open>a\<close> is empty or ends with one.
\<close>

definition os_path_join :: "ustring \<Rightarrow> ustring \<Rightarrow> ustring" where
  "os_path_join a b =
     (if b \<noteq> [] \<and> hd b = 47 then b
      else if a = [] \<or> last a = 47 then a @ b
      else a @ ustr ''/'' @ b)"

text \<open>
  The file system is the environment of the program. The model does not decide what a
  path string names, nor when the operating system refuses a call (a parent that is
  missing, a permission, a name that is too long, a full disk): the answers of the
  operating system are part of the input, as functions of the changes that the run has
  made so far and of the arguments of the call. \<open>ops\<close> lists these changes in order:
  the directories made, the files opened for writing (created or truncated) and the
  data written to them.
\<close>

datatype os_call = MKDIR ustring | OPEN_WB ustring | WRITE ustring "byte list"

record filesystem =
  ops :: "os_call list"
  isdir_answer :: "os_call list \<Rightarrow> ustring \<Rightarrow> bool"
  mkdir_answer :: "os_call list \<Rightarrow> ustring \<Rightarrow> error option"
  open_answer :: "os_call list \<Rightarrow> ustring \<Rightarrow> error option"
  write_answer :: "os_call list \<Rightarrow> ustring \<Rightarrow> byte list \<Rightarrow> error option"

text \<open>\<^verbatim>\<open>os.path.isdir(p)\<close> asks and changes nothing; on a string it never raises.\<close>

definition os_path_isdir :: "filesystem \<Rightarrow> ustring \<Rightarrow> bool" where
  "os_path_isdir f p = isdir_answer f (ops f) p"

text \<open>\<^verbatim>\<open>os.mkdir(p)\<close> makes the directory or raises the error of the operating system.\<close>

definition os_mkdir :: "filesystem \<Rightarrow> ustring \<Rightarrow> error + filesystem" where
  "os_mkdir f p =
     (case mkdir_answer f (ops f) p of
        Some e \<Rightarrow> Inl e
      | None \<Rightarrow> Inr (f\<lparr>ops := ops f @ [MKDIR p]\<rparr>))"

text \<open>
  \<^verbatim>\<open>open(p, "wb")\<close> creates the file or truncates it, or raises; \<^verbatim>\<open>write(data)\<close> on
  the open file writes the bytes or raises.
\<close>

definition open_wb :: "filesystem \<Rightarrow> ustring \<Rightarrow> error + filesystem" where
  "open_wb f p =
     (case open_answer f (ops f) p of
        Some e \<Rightarrow> Inl e
      | None \<Rightarrow> Inr (f\<lparr>ops := ops f @ [OPEN_WB p]\<rparr>))"

definition file_write :: "filesystem \<Rightarrow> ustring \<Rightarrow> byte list \<Rightarrow> error + filesystem" where
  "file_write f p data =
     (case write_answer f (ops f) p data of
        Some e \<Rightarrow> Inl e
      | None \<Rightarrow> Inr (f\<lparr>ops := ops f @ [WRITE p data]\<rparr>))"


section \<open>The mail reader\<close>

subsection \<open>Configuration and construction\<close>

text \<open>
  The configuration is a dictionary read from a YAML document; its values are strings,
  integers, booleans or \<^verbatim>\<open>None\<close>. \<^verbatim>\<open>not v\<close> holds for \<^verbatim>\<open>None\<close>, the empty
  string, zero and \<^verbatim>\<open>False\<close>. Of a value of any other type (a float, a list, a
  mapping, a date) the model keeps the truth value only.
\<close>

datatype cval = CNone | CStr ustring | CInt int | CBool bool | COther bool

type_synonym config = "ustring \<rightharpoonup> cval"

fun truthy :: "cval \<Rightarrow> bool" where
  "truthy CNone = False"
| "truthy (CStr s) = (s \<noteq> [])"
| "truthy (CInt i) = (i \<noteq> 0)"
| "truthy (CBool b) = b"
| "truthy (COther b) = b"

text \<open>\<^verbatim>\<open>d.get(key, default)\<close>: the default stands in for an absent key only.\<close>

definition dict_get :: "('k \<rightharpoonup> 'v) \<Rightarrow> 'k \<Rightarrow> 'v \<Rightarrow> 'v" where
  "dict_get d k dflt = (case d k of None \<Rightarrow> dflt | Some v \<Rightarrow> v)"

text \<open>
  The module \<^verbatim>\<open>mail_reader.utils.constants\<close> holds the names of the configuration keys
  and the defaults. The code reads them as \<^verbatim>\<open>c.USER\<close>, \<^verbatim>\<open>c.DEFAULT_HOST\<close> and so on;
  their values are a parameter of the model.
\<close>

record constants =
  USER :: ustring
  PASSWORD :: ustring
  MAIL :: ustring
  HOST :: ustring
  PORT :: ustring
  SSL :: ustring
  PATH_ATTACHMENTS :: ustring
  DEFAULT_MAIL :: cval
  DEFAULT_HOST :: cval
  DEFAULT_PORT :: cval
  DEFAULT_PATH_ATTACHMENTS :: cval

record mail_reader =
  user :: cval
  password :: cval
  mail :: cval
  host :: cval
  port :: cval
  ssl :: cval
  path_attachments :: cval

text \<open>
  \<^verbatim>\<open>MailReader.__init__\<close>: the fields are read with \<^verbatim>\<open>config.get\<close>, then
  \<^verbatim>\<open>if not self.user and not self.password: raise Exception("User and password are required")\<close>.
\<close>

definition MailReader_init :: "constants \<Rightarrow> config \<Rightarrow> error + mail_reader" where
  "MailReader_init c config =
     (let self = \<lparr> user = dict_get config (USER c) CNone,
                   password = dict_get config (PASSWORD c) CNone,
                   mail = dict_get config (MAIL c) (DEFAULT_MAIL c),
                   host = dict_get config (HOST c) (DEFAULT_HOST c),
                   port = dict_get config (PORT c) (DEFAULT_PORT c),
                   ssl = dict_get config (SSL c) CNone,
                   path_attachments =
                     dict_get config (PATH_ATTACHMENTS c) (DEFAULT_PATH_ATTACHMENTS c) \<rparr>
      in if \<not> truthy (user self) \<and> \<not> truthy (password self)
         then Inl (Exception (ustr ''User and password are required''))
         else Inr self)"

subsection \<open>State, messages and the server\<close>

text \<open>
  What the code changes: the records of the root logger, the standard output, the file
  system and the commands sent over the IMAP session. A call returns its outcome (an
  exception or a value) together with the state it leaves behind.
\<close>

datatype level = INFO | WARNING

datatype imap_cmd =
    LOGIN cval cval cval cval
  | SELECT ustring
  | SEARCH ustring
  | FETCH "byte list" ustring
  | CLOSE

record state =
  logged :: "(level \<times> ustring) list"
  stdout :: "ustring list"
  fs :: filesystem
  sent :: "imap_cmd list"

type_synonym 'a result = "(error + 'a) \<times> state"

definition logging_info :: "ustring \<Rightarrow> state \<Rightarrow> state" where
  "logging_info msg st = st\<lparr>logged := logged st @ [(INFO, msg)]\<rparr>"

definition logging_warning :: "ustring \<Rightarrow> state \<Rightarrow> state" where
  "logging_warning msg st = st\<lparr>logged := logged st @ [(WARNING, msg)]\<rparr>"

text \<open>
  A parsed message (\<^verbatim>\<open>email.message.Message\<close>) as the code reads it:
  \<^item> \<open>content_type\<close> is \<^verbatim>\<open>get_content_type()\<close>;
  \<^item> \<open>content_disposition\<close> is \<^verbatim>\<open>get("Content-Disposition")\<close>, \<open>None\<close> when the
    header is absent;
  \<^item> \<open>filename\<close> is \<^verbatim>\<open>get_filename()\<close>;
  \<^item> \<open>subject\<close> and \<open>sender\<close> are the first pair of \<^verbatim>\<open>decode_header\<close> on the
    Subject and From headers (a \<^verbatim>\<open>str\<close> or \<^verbatim>\<open>bytes\<close> chunk with its charset), \<open>None\<close>
    when the header is absent;
  \<^item> a message that is not multipart holds the bytes that \<^verbatim>\<open>get_payload(decode=True)\<close>
    returns, a multipart one holds its parts, and \<^verbatim>\<open>get_payload(decode=True)\<close> is
    \<^verbatim>\<open>None\<close> for it.
\<close>

datatype chunk = StrChunk ustring | BytesChunk "byte list"

record headers =
  content_type :: ustring
  content_disposition :: "ustring option"
  filename :: "ustring option"
  subject :: "(chunk \<times> ustring option) option"
  sender :: "(chunk \<times> ustring option) option"

datatype message = Single headers "byte list" | Multipart headers "message list"

fun hdrs :: "message \<Rightarrow> headers" where
  "hdrs (Single h b) = h"
| "hdrs (Multipart h ps) = h"

fun is_multipart :: "message \<Rightarrow> bool" where
  "is_multipart (Single h b) = False"
| "is_multipart (Multipart h ps) = True"

fun get_payload_decoded :: "message \<Rightarrow> byte list option" where
  "get_payload_decoded (Single h b) = Some b"
| "get_payload_decoded (Multipart h ps) = None"

text \<open>\<^verbatim>\<open>msg.walk()\<close>: the message itself, then its parts, depth first.\<close>

fun walk :: "message \<Rightarrow> message list" where
  "walk (Single h b) = [Single h b]"
| "walk (Multipart h ps) = Multipart h ps # concat (map walk ps)"

text \<open>
  The server as \<^verbatim>\<open>imaplib\<close> presents it: each call either raises or returns. An item
  of a fetch response is a tuple, whose second component
  \<^verbatim>\<open>email.message_from_bytes\<close> parses into a message, or something else.
\<close>

datatype fetch_item = FTuple message | FOther

record imap_server =
  login :: "error option"
  select :: "ustring \<Rightarrow> error option"
  search :: "ustring \<Rightarrow> error + (ustring \<times> byte list option list)"
  fetch :: "byte list \<Rightarrow> ustring \<Rightarrow> error + fetch_item list"
  close :: "error option"

text \<open>The codec registry: \<^verbatim>\<open>b.decode(name)\<close> raises \<^verbatim>\<open>LookupError\<close> on an unknown name.\<close>

type_synonym codecs = "ustring \<Rightarrow> (byte list \<Rightarrow> ustring option) option"

definition decode_with :: "codecs \<Rightarrow> ustring \<Rightarrow> byte list \<Rightarrow> error + ustring" where
  "decode_with cs name b =
     (case cs name of
        None \<Rightarrow> Inl LookupError
      | Some dec \<Rightarrow> (case dec b of None \<Rightarrow> Inl UnicodeDecodeError | Some s \<Rightarrow> Inr s))"

subsection \<open>\<^verbatim>\<open>MailReader.clean_text\<close>\<close>

text \<open>
  \<^verbatim>\<open>return "".join(c if c.isalnum() else "_" for c in text)\<close>; the code point of
  \<^verbatim>\<open>"_"\<close> is 95.
\<close>

definition clean_text :: "(nat \<Rightarrow> bool) \<Rightarrow> ustring \<Rightarrow> ustring" where
  "clean_text U text = concat (map (\<lambda>c. if isalnum U c then [c] else ustr ''_'') text)"

subsection \<open>\<^verbatim>\<open>MailReader.obtain_header\<close>\<close>

text \<open>
  \<^verbatim>\<open>decode_header(None)\<close> raises \<^verbatim>\<open>TypeError\<close>. A \<^verbatim>\<open>bytes\<close> chunk of the subject is
  decoded with \<^verbatim>\<open>str(encoding)\<close>, which is \<^verbatim>\<open>"None"\<close> for a chunk without charset; one
  of the sender with \<^verbatim>\<open>encoding\<close> itself, and \<^verbatim>\<open>decode(None)\<close> raises \<^verbatim>\<open>TypeError\<close>.
\<close>

definition obtain_header :: "codecs \<Rightarrow> message \<Rightarrow> state \<Rightarrow> (ustring \<times> ustring) result" where
  "obtain_header cs msg st =
     (case subject (hdrs msg) of
        None \<Rightarrow> (Inl TypeError, st)
      | Some (chunk1, encoding1) \<Rightarrow>
          (case (case chunk1 of
                   StrChunk s \<Rightarrow> Inr s
                 | BytesChunk b \<Rightarrow>
                     decode_with cs
                       (case encoding1 of None \<Rightarrow> ustr ''None'' | Some e \<Rightarrow> e) b) of
             Inl e \<Rightarrow> (Inl e, st)
           | Inr subj \<Rightarrow>
               (case sender (hdrs msg) of
                  None \<Rightarrow> (Inl TypeError, st)
                | Some (chunk2, encoding2) \<Rightarrow>
                    (case (case chunk2 of
                             StrChunk s \<Rightarrow> Inr s
                           | BytesChunk b \<Rightarrow>
                               (case encoding2 of
                                  None \<Rightarrow> Inl TypeError
                                | Some e \<Rightarrow> decode_with cs e b)) of
                       Inl e \<Rightarrow> (Inl e, st)
                     | Inr mail_from \<Rightarrow>
                         (Inr (subj, mail_from),
                          logging_info (ustr ''From: '' @ mail_from)
                            (logging_info (ustr ''Subject: '' @ subj) st))))))"

subsection \<open>\<^verbatim>\<open>MailReader.download_attachment\<close>\<close>

text \<open>
  The source:
  \<^verbatim>\<open>
  filename = part.get_filename()
  if filename:
      folder_name = self.clean_text(subject)
      if not os.path.isdir(folder_name):
          if not os.path.isdir(self.path_attachments):
              os.mkdir(self.path_attachments)
          path = f"{self.path_attachments}/{folder_name}"
          if not os.path.isdir(path):
              os.mkdir(path)
          filepath = os.path.join(path, filename)
          open(filepath, "wb").write(part.get_payload(decode=True))
  \<close>
  A root that is not a string raises \<^verbatim>\<open>TypeError\<close> (\<^verbatim>\<open>None\<close> in \<^verbatim>\<open>os.path.isdir\<close>, a
  number in \<^verbatim>\<open>os.mkdir\<close>). The file is opened before the payload is read, so writing
  the payload \<^verbatim>\<open>None\<close> of a multipart part raises \<^verbatim>\<open>TypeError\<close> after the file was
  created or truncated. \<open>ensure_dir\<close> is the pair of lines that makes a directory
  unless \<^verbatim>\<open>os.path.isdir\<close> finds it.
\<close>

definition ensure_dir :: "filesystem \<Rightarrow> ustring \<Rightarrow> error + filesystem" where
  "ensure_dir f p = (if \<not> os_path_isdir f p then os_mkdir f p else Inr f)"

definition download_attachment ::
  "(nat \<Rightarrow> bool) \<Rightarrow> mail_reader \<Rightarrow> message \<Rightarrow> ustring \<Rightarrow> state \<Rightarrow> unit result" where
  "download_attachment U self part subj st =
     (case filename (hdrs part) of
        None \<Rightarrow> (Inr (), st)
      | Some fname \<Rightarrow>
          if fname = [] then (Inr (), st)
          else
            let folder_name = clean_text U subj in
            if os_path_isdir (fs st) folder_name then (Inr (), st)
            else
              (case path_attachments self of
                 CStr root \<Rightarrow>
                   (case ensure_dir (fs st) root of
                      Inl e \<Rightarrow> (Inl e, st)
                    | Inr fs1 \<Rightarrow>
                        let path = root @ ustr ''/'' @ folder_name in
                        (case ensure_dir fs1 path of
                           Inl e \<Rightarrow> (Inl e, st\<lparr>fs := fs1\<rparr>)
                         | Inr fs2 \<Rightarrow>
                             let filepath = os_path_join path fname in
                             (case open_wb fs2 filepath of
                                Inl e \<Rightarrow> (Inl e, st\<lparr>fs := fs2\<rparr>)
                              | Inr fs3 \<Rightarrow>
                                  (case get_payload_decoded part of
                                     None \<Rightarrow> (Inl TypeError, st\<lparr>fs := fs3\<rparr>)
                                   | Some data \<Rightarrow>
                                       (case file_write fs3 filepath data of
                                          Inl e \<Rightarrow> (Inl e, st\<lparr>fs := fs3\<rparr>)
                                        | Inr fs4 \<Rightarrow> (Inr (), st\<lparr>fs := fs4\<rparr>))))))
               | _ \<Rightarrow> (Inl TypeError, st)))"

subsection \<open>\<^verbatim>\<open>MailReader.multipart_process\<close> and \<^verbatim>\<open>MailReader.body_process\<close>\<close>

text \<open>
  The source of \<^verbatim>\<open>multipart_process\<close>:
  \<^verbatim>\<open>
  content_type = part.get_content_type()
  content_disposition = str(part.get("Content-Disposition"))
  try:
      body = part.get_payload(decode=True).decode()
  except Exception:
      pass
  if content_type == "text/plain" and "attachment" not in content_disposition:
      logging.info(body)
  elif "attachment" in content_disposition:
      self.download_attachment(part, subject)
  \<close>
  When the \<^verbatim>\<open>try\<close> block raises (the payload is \<^verbatim>\<open>None\<close> or is not UTF-8), the local
  variable \<^verbatim>\<open>body\<close> stays unbound, and reading it raises \<^verbatim>\<open>UnboundLocalError\<close>.
  \<open>try_body\<close> is the binding of \<^verbatim>\<open>body\<close> after the \<^verbatim>\<open>try\<close> statement.
\<close>

definition str_disposition :: "message \<Rightarrow> ustring" where
  "str_disposition part =
     (case content_disposition (hdrs part) of None \<Rightarrow> ustr ''None'' | Some d \<Rightarrow> d)"

definition try_body :: "message \<Rightarrow> ustring option" where
  "try_body part =
     (case get_payload_decoded part of None \<Rightarrow> None | Some b \<Rightarrow> utf8_decode b)"

definition multipart_process ::
  "(nat \<Rightarrow> bool) \<Rightarrow> mail_reader \<Rightarrow> message \<Rightarrow> ustring \<Rightarrow> state \<Rightarrow> unit result" where
  "multipart_process U self part subj st =
     (let ctype = content_type (hdrs part);
          disposition = str_disposition part;
          body = try_body part
      in if ctype = ustr ''text/plain'' \<and> \<not> py_in (ustr ''attachment'') disposition then
           (case body of
              None \<Rightarrow> (Inl UnboundLocalError, st)
            | Some b \<Rightarrow> (Inr (), logging_info b st))
         else if py_in (ustr ''attachment'') disposition then
           download_attachment U self part subj st
         else (Inr (), st))"

text \<open>
  The source of \<^verbatim>\<open>body_process\<close>, which decodes outside any \<^verbatim>\<open>try\<close>:
  \<^verbatim>\<open>
  content_type = msg.get_content_type()
  body = msg.get_payload(decode=True).decode()
  if content_type == "text/plain":
      logging.info(body)
  \<close>
\<close>

definition body_process :: "message \<Rightarrow> state \<Rightarrow> unit result" where
  "body_process msg st =
     (case get_payload_decoded msg of
        None \<Rightarrow> (Inl AttributeError, st)
      | Some b \<Rightarrow>
          (case utf8_decode b of
             None \<Rightarrow> (Inl UnicodeDecodeError, st)
           | Some body \<Rightarrow>
               if content_type (hdrs msg) = ustr ''text/plain''
               then (Inr (), logging_info body st)
               else (Inr (), st)))"

subsection \<open>\<^verbatim>\<open>conn_and_auth\<close>, \<^verbatim>\<open>search_messages\<close> and \<^verbatim>\<open>process\<close>\<close>

definition conn_and_auth :: "mail_reader \<Rightarrow> imap_server \<Rightarrow> state \<Rightarrow> unit result" where
  "conn_and_auth self imap st =
     (let st1 = st\<lparr>sent := sent st @ [LOGIN (host self) (port self) (user self) (password self)]\<rparr>
      in case login imap of Some e \<Rightarrow> (Inl e, st1) | None \<Rightarrow> (Inr (), st1))"

text \<open>
  The source of \<^verbatim>\<open>search_messages\<close>:
  \<^verbatim>\<open>
  status, messages = imap.search(None, search_criteria)
  if status != "OK":
      logging.warning("No messages found!")
      return []
  messages = messages[0].split(b" ")
  return messages
  \<close>
  \<open>split_first\<close> is its last step on the data of the response.
\<close>

definition split_first :: "byte list option list \<Rightarrow> error + byte list list" where
  "split_first messages =
     (case messages of
        [] \<Rightarrow> Inl IndexError
      | None # _ \<Rightarrow> Inl AttributeError
      | Some m # _ \<Rightarrow> Inr (split_on 32 m))"

definition search_messages :: "imap_server \<Rightarrow> ustring \<Rightarrow> state \<Rightarrow> byte list list result" where
  "search_messages imap search_criteria st =
     (let st1 = st\<lparr>sent := sent st @ [SEARCH search_criteria]\<rparr>
      in case search imap search_criteria of
           Inl e \<Rightarrow> (Inl e, st1)
         | Inr (status, messages) \<Rightarrow>
             if status \<noteq> ustr ''OK''
             then (Inr [], logging_warning (ustr ''No messages found!'') st1)
             else (split_first messages, st1))"

text \<open>
  The loops of \<^verbatim>\<open>process\<close>, innermost first: over the parts of \<^verbatim>\<open>msg.walk()\<close>, over
  the items of one fetch response, and over the identifiers that the search returned.
  An exception leaves every loop.
\<close>

fun process_parts ::
  "(nat \<Rightarrow> bool) \<Rightarrow> mail_reader \<Rightarrow> ustring \<Rightarrow> message list \<Rightarrow> state \<Rightarrow> unit result" where
  "process_parts U self subj [] st = (Inr (), st)"
| "process_parts U self subj (part # parts) st =
     (case multipart_process U self part subj st of
        (Inl e, st1) \<Rightarrow> (Inl e, st1)
      | (Inr _, st1) \<Rightarrow> process_parts U self subj parts st1)"

fun process_responses ::
  "(nat \<Rightarrow> bool) \<Rightarrow> codecs \<Rightarrow> mail_reader \<Rightarrow> fetch_item list \<Rightarrow> state \<Rightarrow> unit result" where
  "process_responses U cs self [] st = (Inr (), st)"
| "process_responses U cs self (FOther # rest) st = process_responses U cs self rest st"
| "process_responses U cs self (FTuple msg # rest) st =
     (case obtain_header cs msg st of
        (Inl e, st1) \<Rightarrow> (Inl e, st1)
      | (Inr (subj, _), st1) \<Rightarrow>
          (case (if is_multipart msg then process_parts U self subj (walk msg) st1
                 else body_process msg st1) of
             (Inl e, st2) \<Rightarrow> (Inl e, st2)
           | (Inr _, st2) \<Rightarrow>
               process_responses U cs self rest
                 (st2\<lparr>stdout := stdout st2 @ [replicate 100 61]\<rparr>)))"

fun process_messages ::
  "(nat \<Rightarrow> bool) \<Rightarrow> codecs \<Rightarrow> mail_reader \<Rightarrow> imap_server \<Rightarrow> byte list list \<Rightarrow> state
     \<Rightarrow> unit result" where
  "process_messages U cs self imap [] st = (Inr (), st)"
| "process_messages U cs self imap (i # rest) st =
     (let st1 = st\<lparr>sent := sent st @ [FETCH i (ustr ''(RFC822)'')]\<rparr>
      in case fetch imap i (ustr ''(RFC822)'') of
           Inl e \<Rightarrow> (Inl e, st1)
         | Inr msg \<Rightarrow>
             (case process_responses U cs self msg st1 of
                (Inl e, st2) \<Rightarrow> (Inl e, st2)
              | (Inr _, st2) \<Rightarrow> process_messages U cs self imap rest st2))"

definition process ::
  "(nat \<Rightarrow> bool) \<Rightarrow> codecs \<Rightarrow> mail_reader \<Rightarrow> imap_server \<Rightarrow> state \<Rightarrow> unit result" where
  "process U cs self imap st =
     (case conn_and_auth self imap st of
        (Inl e, st1) \<Rightarrow> (Inl e, st1)
      | (Inr _, st1) \<Rightarrow>
          (let st2 = st1\<lparr>sent := sent st1 @ [SELECT (ustr ''INBOX'')]\<rparr>
           in case select imap (ustr ''INBOX'') of
                Some e \<Rightarrow> (Inl e, st2)
              | None \<Rightarrow>
                  (case search_messages imap (ustr ''ALL'') st2 of
                     (Inl e, st3) \<Rightarrow> (Inl e, st3)
                   | (Inr messages, st3) \<Rightarrow>
                       (case process_messages U cs self imap messages st3 of
                          (Inl e, st4) \<Rightarrow> (Inl e, st4)
                        | (Inr _, st4) \<Rightarrow>
                            (let st5 = st4\<lparr>sent := sent st4 @ [CLOSE]\<rparr>
                             in case close imap of
                                  Some e \<Rightarrow> (Inl e, st5)
                                | None \<Rightarrow> (Inr (), st5))))))"

subsection \<open>Concrete inputs\<close>

text \<open>
  An instance of the constants, a reader, an empty state and a way to write the headers
  of a part, for evaluating the model on concrete inputs.

  \<open>scripted_fs present\<close> is a file system that answers for path strings as they are
  written: a directory is there when its name is in \<open>present\<close> or the run has made it,
  \<^verbatim>\<open>os.mkdir\<close> refuses a directory that is there, and every file can be opened and
  written. The state \<open>st0\<close> starts in a working directory without directories.
\<close>

definition scripted_fs :: "ustring list \<Rightarrow> filesystem" where
  "scripted_fs present =
     \<lparr> ops = [],
       isdir_answer = (\<lambda>made p. p \<in> set present \<or> MKDIR p \<in> set made),
       mkdir_answer = (\<lambda>made p. if p \<in> set present \<or> MKDIR p \<in> set made
                                 then Some FileExistsError else None),
       open_answer = (\<lambda>made p. None),
       write_answer = (\<lambda>made p data. None) \<rparr>"

definition constants0 :: constants where
  "constants0 =
     \<lparr> USER = ustr ''user'', PASSWORD = ustr ''password'', MAIL = ustr ''mail'',
       HOST = ustr ''host'', PORT = ustr ''port'', SSL = ustr ''ssl'',
       PATH_ATTACHMENTS = ustr ''path_attachments'',
       DEFAULT_MAIL = CStr (ustr ''me@example.org''),
       DEFAULT_HOST = CStr (ustr ''imap.example.org''),
       DEFAULT_PORT = CInt 993,
       DEFAULT_PATH_ATTACHMENTS = CStr (ustr ''attachments'') \<rparr>"

definition reader0 :: mail_reader where
  "reader0 =
     \<lparr> user = CStr (ustr ''alice''), password = CStr (ustr ''secret''),
       mail = CStr (ustr ''me@example.org''), host = CStr (ustr ''imap.example.org''),
       port = CInt 993, ssl = CNone, path_attachments = CStr (ustr ''attachments'') \<rparr>"

definition st0 :: state where
  "st0 = \<lparr> logged = [], stdout = [], fs = scripted_fs [], sent = [] \<rparr>"

definition part_headers :: "ustring \<Rightarrow> ustring option \<Rightarrow> ustring option \<Rightarrow> headers" where
  "part_headers ctype disposition fname =
     \<lparr> content_type = ctype, content_disposition = disposition, filename = fname,
       subject = None, sender = None \<rparr>"


definition pdf_part :: message where
  "pdf_part =
     Single (part_headers (ustr ''application/pdf'')
               (Some (ustr ''attachment; filename=report.pdf'')) (Some (ustr ''report.pdf'')))
       (bstr ''%PDF-1.4'')"





definition imap_empty :: imap_server where
  "imap_empty =
     \<lparr> login = None, select = (\<lambda>mailbox. None),
       search = (\<lambda>criteria. Inr (ustr ''OK'', [Some []])),
       fetch = (\<lambda>i parts. Inl ImapError), close = None \<rparr>"

subsection \<open>The words of the specification\<close>

text \<open>
  A credential is missing or empty when its key is absent from the mapping, or its value
  is \<^verbatim>\<open>None\<close> or the empty string.
\<close>

fun missing_or_empty :: "cval option \<Rightarrow> bool" where
  "missing_or_empty None = True"
| "missing_or_empty (Some CNone) = True"
| "missing_or_empty (Some (CStr s)) = (s = [])"
| "missing_or_empty (Some v) = False"

text \<open>
  A credential is missing or falsy when its key is absent, or its value is one that
  Python takes for false: \<^verbatim>\<open>None\<close>, the empty string, the number zero, \<^verbatim>\<open>False\<close>, or
  a false value of another type (an empty list, an empty mapping, the float zero).
\<close>

fun missing_or_falsy :: "cval option \<Rightarrow> bool" where
  "missing_or_falsy None = True"
| "missing_or_falsy (Some CNone) = True"
| "missing_or_falsy (Some (CStr s)) = (s = [])"
| "missing_or_falsy (Some (CInt i)) = (i = 0)"
| "missing_or_falsy (Some (CBool b)) = (\<not> b)"
| "missing_or_falsy (Some (COther b)) = (\<not> b)"

section \<open>Properties\<close>

lemma ustr_underscore: "ustr ''_'' = [95]"
  by (simp add: ustr_def)

lemma clean_text_map: "clean_text U text = map (\<lambda>c. if isalnum U c then c else 95) text"
  by (induction "text") (simp_all add: clean_text_def ustr_underscore)

lemma clean_text_alnum_id: "list_all (isalnum U) text \<Longrightarrow> clean_text U text = text"
  by (induction "text") (simp_all add: clean_text_map)

lemma clean_text_idem: "clean_text U (clean_text U text) = clean_text U text"
  by (simp add: clean_text_map)

text \<open>
  C7. \<open>clean_text\<close> is a total function on strings (it has no error result). Its output
  has the length of its input; at every position an alphanumeric character is kept and
  any other character is replaced by the underscore; it is idempotent; and it is the
  identity on strings of alphanumeric characters only.
\<close>

theorem clean_text_spec:
  "length (clean_text U text) = length text \<and>
   (\<forall>i < length text.
      clean_text U text ! i = (if isalnum U (text ! i) then text ! i else 95)) \<and>
   clean_text U (clean_text U text) = clean_text U text \<and>
   (list_all (isalnum U) text \<longrightarrow> clean_text U text = text)"
  by (simp add: clean_text_idem clean_text_alnum_id) (simp add: clean_text_map)

theorem clean_text_spec_witness:
  "length (clean_text (\<lambda>c. False) (ustr ''Q1 Report!'')) = 10 \<and>
   clean_text (\<lambda>c. False) (ustr ''Q1 Report!'') ! 2 = 95 \<and>
   clean_text (\<lambda>c. False) (ustr ''Q1 Report!'') ! 3 = 82 \<and>
   clean_text (\<lambda>c. False) (clean_text (\<lambda>c. False) (ustr ''Q1 Report!''))
     = clean_text (\<lambda>c. False) (ustr ''Q1 Report!'') \<and>
   clean_text (\<lambda>c. False) (ustr ''Q1Report'') = ustr ''Q1Report''"
  using clean_text_spec [of "\<lambda>c. False" "ustr ''Q1 Report!''"]
    clean_text_spec [of "\<lambda>c. False" "ustr ''Q1Report''"]
  by (simp add: ustr_def isalnum_def)

subsection \<open>Construction\<close>

lemma truthy_dict_get:
  "truthy (dict_get config k CNone) = (\<not> missing_or_falsy (config k))"
  by (cases "config k" rule: missing_or_falsy.cases) (simp_all add: dict_get_def)

text \<open>
  C3, as stated, fails on the configuration \<^verbatim>\<open>{"user": 0}\<close>: the user is present and
  is not the empty string, so not both credentials are missing or empty, and
  construction raises the configuration error all the same.
\<close>

theorem init_raises_on_zero_user:
  "MailReader_init constants0 [ustr ''user'' \<mapsto> CInt 0]
     = Inl (Exception (ustr ''User and password are required''))
   \<and> \<not> missing_or_empty ([ustr ''user'' \<mapsto> CInt 0] (USER constants0))"
  by (simp add: MailReader_init_def dict_get_def constants0_def ustr_def)

text \<open>
  C3, amended. Construction raises the configuration error if and only if both user and
  password are missing or falsy; otherwise it succeeds, and every other field holds the
  configured value, or its default when the key is absent (no default for the SSL flag).
\<close>

theorem init_raises_iff_both_falsy:
  "MailReader_init c config =
     (if missing_or_falsy (config (USER c)) \<and> missing_or_falsy (config (PASSWORD c))
      then Inl (Exception (ustr ''User and password are required''))
      else Inr \<lparr> user = (case config (USER c) of None \<Rightarrow> CNone | Some v \<Rightarrow> v),
                 password = (case config (PASSWORD c) of None \<Rightarrow> CNone | Some v \<Rightarrow> v),
                 mail = (case config (MAIL c) of None \<Rightarrow> DEFAULT_MAIL c | Some v \<Rightarrow> v),
                 host = (case config (HOST c) of None \<Rightarrow> DEFAULT_HOST c | Some v \<Rightarrow> v),
                 port = (case config (PORT c) of None \<Rightarrow> DEFAULT_PORT c | Some v \<Rightarrow> v),
                 ssl = (case config (SSL c) of None \<Rightarrow> CNone | Some v \<Rightarrow> v),
                 path_attachments =
                   (case config (PATH_ATTACHMENTS c) of
                      None \<Rightarrow> DEFAULT_PATH_ATTACHMENTS c | Some v \<Rightarrow> v) \<rparr>)"
  unfolding MailReader_init_def Let_def
  by (simp add: truthy_dict_get) (simp add: dict_get_def)

theorem init_raises_iff_both_falsy_witness:
  "MailReader_init constants0 [ustr ''password'' \<mapsto> CStr (ustr ''secret'')]
     = Inr \<lparr> user = CNone, password = CStr (ustr ''secret''),
             mail = CStr (ustr ''me@example.org''), host = CStr (ustr ''imap.example.org''),
             port = CInt 993, ssl = CNone, path_attachments = CStr (ustr ''attachments'') \<rparr>
   \<and> MailReader_init constants0 [ustr ''user'' \<mapsto> CStr [], ustr ''host'' \<mapsto> CStr (ustr ''h'')]
     = Inl (Exception (ustr ''User and password are required''))
   \<and> MailReader_init constants0 [ustr ''user'' \<mapsto> CBool False, ustr ''password'' \<mapsto> CInt 0]
     = Inl (Exception (ustr ''User and password are required''))"
  using init_raises_iff_both_falsy
          [of constants0 "[ustr ''password'' \<mapsto> CStr (ustr ''secret'')]"]
        init_raises_iff_both_falsy
          [of constants0 "[ustr ''user'' \<mapsto> CStr [], ustr ''host'' \<mapsto> CStr (ustr ''h'')]"]
        init_raises_iff_both_falsy
          [of constants0 "[ustr ''user'' \<mapsto> CBool False, ustr ''password'' \<mapsto> CInt 0]"]
  by (simp add: constants0_def ustr_def)

text \<open>
  C4. The docstring of the constructor promises an exception "if any of the parameters
  is not provided", and the message reads "User and password are required"; the guard
  joins the two tests with \<^verbatim>\<open>and\<close>. A configuration with a user and no password is
  accepted: construction returns a reader whose password is \<^verbatim>\<open>None\<close>.
\<close>

theorem init_accepts_missing_password:
  "MailReader_init constants0 [ustr ''user'' \<mapsto> CStr (ustr ''alice'')]
     = Inr \<lparr> user = CStr (ustr ''alice''), password = CNone,
             mail = CStr (ustr ''me@example.org''), host = CStr (ustr ''imap.example.org''),
             port = CInt 993, ssl = CNone, path_attachments = CStr (ustr ''attachments'') \<rparr>"
  by (simp add: MailReader_init_def dict_get_def constants0_def ustr_def)

subsection \<open>The commands sent to the server\<close>

text \<open>Only the calls on the session add to the commands sent.\<close>

lemma sent_logging_info [simp]: "sent (logging_info m st) = sent st"
  by (simp add: logging_info_def)

lemma sent_obtain_header: "obtain_header cs msg st = (r, st1) \<Longrightarrow> sent st1 = sent st"
  by (auto simp add: obtain_header_def split: option.splits prod.splits chunk.splits sum.splits)

lemma sent_download_attachment:
  "download_attachment U self part subj st = (r, st1) \<Longrightarrow> sent st1 = sent st"
  by (auto simp add: download_attachment_def Let_def
           split: option.splits cval.splits sum.splits prod.splits if_splits)

lemma sent_multipart_process:
  "multipart_process U self part subj st = (r, st1) \<Longrightarrow> sent st1 = sent st"
  by (auto simp add: multipart_process_def Let_def
        dest: sent_download_attachment split: option.splits if_splits)

lemma sent_body_process: "body_process msg st = (r, st1) \<Longrightarrow> sent st1 = sent st"
  by (auto simp add: body_process_def split: option.splits if_splits)

lemma sent_process_parts:
  "process_parts U self subj parts st = (r, st1) \<Longrightarrow> sent st1 = sent st"
proof (induction parts arbitrary: st)
  case Nil
  then show ?case by simp
next
  case (Cons part parts)
  then show ?case
    by (auto split: prod.splits sum.splits dest: sent_multipart_process)
qed

lemma sent_process_responses:
  "process_responses U cs self items st = (r, st1) \<Longrightarrow> sent st1 = sent st"
proof (induction items arbitrary: st)
  case Nil
  then show ?case by simp
next
  case (Cons item items)
  show ?case
  proof (cases item)
    case FOther
    with Cons show ?thesis by simp
  next
    case (FTuple msg)
    with Cons.prems show ?thesis
      by (auto split: prod.splits sum.splits if_splits
            dest!: sent_obtain_header sent_process_parts sent_body_process Cons.IH)
  qed
qed

subsection \<open>The log and the file system\<close>





subsection \<open>Searching\<close>



text \<open>
  C9. When the server answers the search with the status \<^verbatim>\<open>OK\<close> and the empty data
  \<^verbatim>\<open>[b""]\<close>, \<open>search_messages\<close> returns the list of one empty identifier, and the
  message loop of \<open>process\<close> over that list sends exactly one fetch, for the empty
  identifier. So \<open>process\<close>, once connected to a server that answers its search in
  that way, sends the fetch for the empty identifier right after the search, and goes
  on with what the server answers to that fetch.
\<close>

theorem search_messages_ok_empty:
  assumes "search imap criteria = Inr (ustr ''OK'', [Some []])"
  shows "search_messages imap criteria st = (Inr [[]], st\<lparr>sent := sent st @ [SEARCH criteria]\<rparr>)
         \<and> sent (snd (process_messages U cs self imap [[]] st1))
             = sent st1 @ [FETCH [] (ustr ''(RFC822)'')]
         \<and> (criteria = ustr ''ALL'' \<and> login imap = None \<and> select imap (ustr ''INBOX'') = None
            \<longrightarrow> process U cs self imap st =
                 (case fetch imap [] (ustr ''(RFC822)'') of
                    Inl e \<Rightarrow>
                      (Inl e,
                       st\<lparr>sent := sent st
                            @ [LOGIN (host self) (port self) (user self) (password self),
                               SELECT (ustr ''INBOX''), SEARCH (ustr ''ALL''),
                               FETCH [] (ustr ''(RFC822)'')]\<rparr>)
                  | Inr msg \<Rightarrow>
                      (case process_responses U cs self msg
                              (st\<lparr>sent := sent st
                                   @ [LOGIN (host self) (port self) (user self) (password self),
                                      SELECT (ustr ''INBOX''), SEARCH (ustr ''ALL''),
                                      FETCH [] (ustr ''(RFC822)'')]\<rparr>) of
                         (Inl e, st2) \<Rightarrow> (Inl e, st2)
                       | (Inr u, st2) \<Rightarrow>
                           ((case close imap of Some e \<Rightarrow> Inl e | None \<Rightarrow> Inr ()),
                            st2\<lparr>sent := sent st2 @ [CLOSE]\<rparr>))))"
proof (intro conjI impI)
  show "search_messages imap criteria st = (Inr [[]], st\<lparr>sent := sent st @ [SEARCH criteria]\<rparr>)"
    using assms by (simp add: search_messages_def Let_def split_first_def)
next
  show "sent (snd (process_messages U cs self imap [[]] st1))
          = sent st1 @ [FETCH [] (ustr ''(RFC822)'')]"
    by (auto simp add: Let_def split: sum.splits prod.splits dest!: sent_process_responses)
next
  assume h: "criteria = ustr ''ALL'' \<and> login imap = None \<and> select imap (ustr ''INBOX'') = None"
  with assms have s: "search imap (ustr ''ALL'') = Inr (ustr ''OK'', [Some []])"
    by simp
  show "process U cs self imap st =
                 (case fetch imap [] (ustr ''(RFC822)'') of
                    Inl e \<Rightarrow>
                      (Inl e,
                       st\<lparr>sent := sent st
                            @ [LOGIN (host self) (port self) (user self) (password self),
                               SELECT (ustr ''INBOX''), SEARCH (ustr ''ALL''),
                               FETCH [] (ustr ''(RFC822)'')]\<rparr>)
                  | Inr msg \<Rightarrow>
                      (case process_responses U cs self msg
                              (st\<lparr>sent := sent st
                                   @ [LOGIN (host self) (port self) (user self) (password self),
                                      SELECT (ustr ''INBOX''), SEARCH (ustr ''ALL''),
                                      FETCH [] (ustr ''(RFC822)'')]\<rparr>) of
                         (Inl e, st2) \<Rightarrow> (Inl e, st2)
                       | (Inr u, st2) \<Rightarrow>
                           ((case close imap of Some e \<Rightarrow> Inl e | None \<Rightarrow> Inr ()),
                            st2\<lparr>sent := sent st2 @ [CLOSE]\<rparr>)))"
    using h s
    by (simp add: process_def conn_and_auth_def search_messages_def Let_def split_first_def
          split: option.splits sum.splits prod.splits)
qed

theorem search_messages_ok_empty_witness:
  "search_messages imap_empty (ustr ''ALL'') st0 = (Inr [[]], st0\<lparr>sent := [SEARCH (ustr ''ALL'')]\<rparr>)
   \<and> process_messages (\<lambda>c. False) (\<lambda>name. None) reader0 imap_empty [[]] st0
       = (Inl ImapError, st0\<lparr>sent := [FETCH [] (ustr ''(RFC822)'')]\<rparr>)
   \<and> process (\<lambda>c. False) (\<lambda>name. None) reader0 imap_empty st0
       = (Inl ImapError,
          st0\<lparr>sent := [LOGIN (CStr (ustr ''imap.example.org'')) (CInt 993)
                          (CStr (ustr ''alice'')) (CStr (ustr ''secret'')),
                        SELECT (ustr ''INBOX''), SEARCH (ustr ''ALL''),
                        FETCH [] (ustr ''(RFC822)'')]\<rparr>)"
proof -
  have a: "search imap_empty (ustr ''ALL'') = Inr (ustr ''OK'', [Some []])"
    by (simp add: imap_empty_def)
  have c: "login imap_empty = None" "select imap_empty (ustr ''INBOX'') = None"
    "fetch imap_empty [] (ustr ''(RFC822)'') = Inl ImapError"
    by (simp_all add: imap_empty_def)
  show ?thesis
    using search_messages_ok_empty [OF a, of st0 "\<lambda>c. False" "\<lambda>name. None" reader0 st0] c
    by (simp add: st0_def reader0_def imap_empty_def)
qed

subsection \<open>Bodies\<close>

text \<open>
  C2. A \<^verbatim>\<open>text/plain\<close> part without Content-Disposition whose payload is not UTF-8
  (here the Latin-1 bytes of the word cafe with an acute accent): the \<^verbatim>\<open>try\<close> block swallows the decoding error
  and leaves \<^verbatim>\<open>body\<close> unbound, and the \<^verbatim>\<open>logging.info(body)\<close> that follows raises
  \<^verbatim>\<open>UnboundLocalError\<close>. The part is not skipped silently.
\<close>

theorem multipart_process_undecodable_raises:
  "multipart_process U self
     (Single (part_headers (ustr ''text/plain'') None None) [0x63, 0x61, 0x66, 0xE9]) subj st
   = (Inl UnboundLocalError, st)"
  by (simp add: multipart_process_def Let_def str_disposition_def try_body_def
        part_headers_def utf8_head_def ustr_def)

text \<open>
  C5. A message that is not multipart, of content type \<^verbatim>\<open>image/png\<close>, whose payload
  starts with the PNG signature: \<open>body_process\<close> decodes the payload before it looks at
  the content type, outside any \<^verbatim>\<open>try\<close>, and raises \<^verbatim>\<open>UnicodeDecodeError\<close>.
\<close>

theorem body_process_undecodable_raises:
  "body_process (Single (part_headers (ustr ''image/png'') None None) [0x89, 0x50, 0x4E, 0x47]) st
   = (Inl UnicodeDecodeError, st)"
  by (simp add: body_process_def utf8_head_def)

text \<open>
  C10, as stated, fails on a \<^verbatim>\<open>text/plain\<close> part without Content-Disposition whose
  payload is the single byte \<^verbatim>\<open>0xE9\<close>: nothing is logged.
\<close>

theorem no_disposition_body_not_logged:
  "multipart_process (\<lambda>c. False) reader0
     (Single (part_headers (ustr ''text/plain'') None None) [0xE9]) (ustr ''Hi'') st0
   = (Inl UnboundLocalError, st0)"
  by (simp add: multipart_process_def Let_def str_disposition_def try_body_def
        part_headers_def utf8_head_def ustr_def)

text \<open>
  C10, amended. A part without Content-Disposition header is never an attachment: the
  absent header is stringified to \<^verbatim>\<open>"None"\<close>, which does not contain \<^verbatim>\<open>"attachment"\<close>.
  Such a part of content type \<^verbatim>\<open>text/plain\<close> whose payload decodes as text has its body
  logged, once, and no file is written; such a part of any other content type changes
  nothing.
\<close>

theorem no_disposition_is_no_attachment:
  assumes "content_disposition (hdrs part) = None"
  shows "str_disposition part = ustr ''None''
         \<and> \<not> py_in (ustr ''attachment'') (str_disposition part)
         \<and> (\<forall>body. content_type (hdrs part) = ustr ''text/plain'' \<longrightarrow> try_body part = Some body
              \<longrightarrow> multipart_process U self part subj st
                    = (Inr (), st\<lparr>logged := logged st @ [(INFO, body)]\<rparr>))
         \<and> (content_type (hdrs part) \<noteq> ustr ''text/plain''
              \<longrightarrow> multipart_process U self part subj st = (Inr (), st))"
proof -
  have d: "str_disposition part = ustr ''None''"
    using assms by (simp add: str_disposition_def)
  have n: "\<not> py_in (ustr ''attachment'') (ustr ''None'')"
    by (simp add: ustr_def)
  show ?thesis
    by (simp add: d n multipart_process_def Let_def logging_info_def)
qed

theorem no_disposition_is_no_attachment_witness:
  "multipart_process (\<lambda>c. False) reader0
     (Single (part_headers (ustr ''text/plain'') None None) (bstr ''Hello world'')) (ustr ''Hi'') st0
     = (Inr (), st0\<lparr>logged := [(INFO, ustr ''Hello world'')]\<rparr>)
   \<and> multipart_process (\<lambda>c. False) reader0
     (Single (part_headers (ustr ''text/html'') None None) [0xE9]) (ustr ''Hi'') st0
     = (Inr (), st0)"
proof -
  have a: "content_disposition (hdrs (Single (part_headers (ustr ''text/plain'') None None)
             (bstr ''Hello world''))) = None"
    by (simp add: part_headers_def)
  have b: "content_disposition (hdrs (Single (part_headers (ustr ''text/html'') None None)
             [0xE9])) = None"
    by (simp add: part_headers_def)
  have t: "try_body (Single (part_headers (ustr ''text/plain'') None None) (bstr ''Hello world''))
             = Some (ustr ''Hello world'')"
    by (simp add: try_body_def utf8_head_def bstr_def ustr_def)
  have h: "ustr ''text/html'' \<noteq> ustr ''text/plain''"
    by (simp add: ustr_def)
  show ?thesis
    using no_disposition_is_no_attachment [OF a, of "\<lambda>c. False" reader0 "ustr ''Hi''" st0]
      no_disposition_is_no_attachment [OF b, of "\<lambda>c. False" reader0 "ustr ''Hi''" st0] t h
    by (simp add: part_headers_def st0_def)
qed

subsection \<open>Attachments and the dispatch of parts\<close>

text \<open>
  C1. The attached file \<^verbatim>\<open>report.pdf\<close> under the subject "Q1 Report!", processed while
  the working directory holds a directory \<^verbatim>\<open>Q1_Report_\<close>: the guard of
  \<open>download_attachment\<close> tests the bare folder name, not the path under the root, and
  the creation of the directories and the write are inside that guard. Nothing is
  created and nothing is written.
\<close>

theorem download_attachment_skips_when_bare_folder_exists:
  "download_attachment U reader0 pdf_part (ustr ''Q1 Report!'')
     (st0\<lparr>fs := scripted_fs [ustr ''Q1_Report_'']\<rparr>)
   = (Inr (), st0\<lparr>fs := scripted_fs [ustr ''Q1_Report_'']\<rparr>)"
  by (simp add: download_attachment_def Let_def pdf_part_def part_headers_def
        clean_text_map isalnum_def ustr_def os_path_isdir_def scripted_fs_def)




end
